theory Spec2Isabelle
  imports Main
begin

section \<open>Okta social login: resolving an identity from a token and the user-info endpoint\<close>

text \<open>
  A shallow embedding of \<^verbatim>\<open>pkg/login/social/okta_oauth.go\<close>: the method
  \<^verbatim>\<open>UserInfo\<close> of \<^verbatim>\<open>SocialOkta\<close> and the helpers it calls
  (\<^verbatim>\<open>GetGroups\<close>, \<^verbatim>\<open>extractAPI\<close>, \<^verbatim>\<open>extractEmail\<close>,
  \<^verbatim>\<open>extractRole\<close>).

  Go strings and byte slices are byte sequences, here \<open>string\<close> (a list of 8-bit
  characters). A nil slice and an empty slice are both the empty list: the code only ever
  takes their length or compares a string with \<^verbatim>\<open>""\<close>.
\<close>

type_synonym bytes = string

subsection \<open>Data\<close>

text \<open>The claim set read from the identity token (struct \<^verbatim>\<open>OktaClaims\<close>).\<close>

record OktaClaims =
  ID :: string
  Email :: string
  PreferredUsername :: string
  Name :: string

text \<open>
  The user-info document (struct \<^verbatim>\<open>OktaUserInfoJson\<close>). The field
  \<^verbatim>\<open>rawJSON\<close> is unexported and carries no JSON tag: the decoder never writes it.
\<close>

record OktaUserInfoJson =
  Name :: string
  DisplayName :: string
  Login :: string
  Username :: string
  Email :: string
  Upn :: string
  Attributes :: "string \<rightharpoonup> string list"
  Groups :: "string list"
  rawJSON :: bytes

text \<open>The zero value that \<^verbatim>\<open>var data OktaUserInfoJson\<close> declares.\<close>

definition zeroOktaUserInfoJson :: OktaUserInfoJson where
  "zeroOktaUserInfoJson =
     \<lparr>OktaUserInfoJson.Name = [], DisplayName = [], OktaUserInfoJson.Login = [], Username = [],
      OktaUserInfoJson.Email = [], Upn = [], Attributes = Map.empty,
      OktaUserInfoJson.Groups = [], rawJSON = []\<rparr>"

text \<open>
  The result (struct \<^verbatim>\<open>BasicUserInfo\<close>, declared outside the file): the six fields
  that \<^verbatim>\<open>UserInfo\<close> sets.
\<close>

record BasicUserInfo =
  Id :: string
  Name :: string
  Email :: string
  Login :: string
  Role :: string
  Groups :: "string list"

text \<open>The receiver (struct \<^verbatim>\<open>SocialOkta\<close>): the provider's configuration.\<close>

record SocialOkta =
  apiUrl :: string
  allowedDomains :: "string list"
  allowedGroups :: "string list"
  allowSignup :: bool
  roleAttributePath :: string

text \<open>
  \<^verbatim>\<open>token.Extra(key)\<close> returns a Go \<^verbatim>\<open>interface{}\<close>: nil when the token
  response has no such field, otherwise a value of any dynamic type. \<open>iface\<close> lists the
  dynamic types a decoded token response can hold at a key; nil is \<open>None\<close>.
\<close>

datatype iface = IString string | INumber int | IBool bool

record Token =
  raw :: "string \<rightharpoonup> iface"

definition Extra :: "Token \<Rightarrow> string \<Rightarrow> iface option" where
  "Extra token key = raw token key"

text \<open>
  How a call ends when it does not return an identity: with an error value, whose message
  is the one given to \<^verbatim>\<open>fmt.Errorf\<close> or \<^verbatim>\<open>errors.New\<close>, or with the
  run-time panic of a failed type assertion. The specification names the errors:
  NoIdentityTokenError is \<^verbatim>\<open>No id_token found\<close>, TokenParseError is
  \<^verbatim>\<open>Error parsing id token\<close>, NoEmailError is
  \<^verbatim>\<open>Error getting user info: No email found in access token\<close>; the code has a
  fourth, \<^verbatim>\<open>Error getting claims from id token\<close>.
\<close>

datatype failure = Error string | Panic

text \<open>A parsed JSON document, as the role evaluator sees it.\<close>

datatype json =
    JNull
  | JBool bool
  | JNumber int
  | JString string
  | JArray "json list"
  | JObject "(string \<times> json) list"

text \<open>What an HTTP GET yields: an error, or the body of the response.\<close>

datatype http_result = Failed string | Body bytes

subsection \<open>The libraries and the network\<close>

text \<open>
  The code calls libraries that are not part of the repository, and reads from the network.
  They are parameters of the model, so every theorem below holds whatever they answer:
  \<^item> \<open>ParseSigned\<close>: \<^verbatim>\<open>jwt.ParseSigned\<close>, \<open>None\<close> when it returns an error;
  \<^item> \<open>UnsafeClaimsWithoutVerification\<close>: the method of the parsed token that decodes the
    claim set, \<open>None\<close> when it returns an error;
  \<^item> \<open>network\<close>: what the \<open>n\<close>-th request of the client (counted from 0) for a URL yields;
    two requests for one URL need not yield the same;
  \<^item> \<open>Unmarshal\<close>: \<^verbatim>\<open>json.Unmarshal\<close> into an \<^verbatim>\<open>OktaUserInfoJson\<close>: the
    document after the call and the error (\<open>None\<close> for nil). The document may have changed
    also when an error is returned;
  \<^item> \<open>decodeJSON\<close>: JSON decoding of a byte sequence into a generic value, \<open>None\<close> for a
    malformed document;
  \<^item> \<open>searchPath\<close>: the path language of the role attribute path, \<open>None\<close> when the
    path selects nothing.
\<close>

record 'jwt env =
  ParseSigned :: "string \<Rightarrow> 'jwt option"
  UnsafeClaimsWithoutVerification :: "'jwt \<Rightarrow> OktaClaims option"
  network :: "nat \<Rightarrow> string \<Rightarrow> http_result"
  Unmarshal :: "bytes \<Rightarrow> OktaUserInfoJson \<Rightarrow> OktaUserInfoJson \<times> string option"
  decodeJSON :: "bytes \<Rightarrow> json option"
  searchPath :: "string \<Rightarrow> json \<Rightarrow> json option"

text \<open>
  The effects of a call: the URLs requested through the HTTP client, oldest first, and the
  messages logged with their level (the key/value context of a log entry is not recorded).
\<close>

datatype level = Debug | ErrorLevel

record world =
  requests :: "string list"
  logged :: "(level \<times> string) list"

definition log_Debug :: "string \<Rightarrow> world \<Rightarrow> world" where
  "log_Debug msg w = w\<lparr>logged := logged w @ [(Debug, msg)]\<rparr>"

definition log_Error :: "string \<Rightarrow> world \<Rightarrow> world" where
  "log_Error msg w = w\<lparr>logged := logged w @ [(ErrorLevel, msg)]\<rparr>"

text \<open>
  Modelled from the spec: \<^verbatim>\<open>HttpGet\<close>, the repository's HTTP helper, is not in the
  source at hand. Section 6 of the specification has it send one HTTP GET to the URL and
  hand back the body of the response as opaque bytes, or an error.
\<close>

definition HttpGet :: "'jwt env \<Rightarrow> world \<Rightarrow> string \<Rightarrow> http_result \<times> world" where
  "HttpGet env client url =
     (network env (length (requests client)) url, client\<lparr>requests := requests client @ [url]\<rparr>)"

text \<open>
  \<^verbatim>\<open>json.Unmarshal(data.rawJSON, data)\<close>: the decoder writes exported fields only, so
  \<^verbatim>\<open>rawJSON\<close> keeps the value it had before the call.
\<close>

definition json_Unmarshal ::
    "'jwt env \<Rightarrow> bytes \<Rightarrow> OktaUserInfoJson \<Rightarrow> OktaUserInfoJson \<times> string option" where
  "json_Unmarshal env bs data =
     (case Unmarshal env bs data of (data', err) \<Rightarrow> (data'\<lparr>rawJSON := rawJSON data\<rparr>, err))"

text \<open>
  Modelled from the spec: \<^verbatim>\<open>searchJSONForAttr\<close>, a method of the embedded
  \<^verbatim>\<open>SocialBase\<close>, is not in the source at hand. Section 4.1 of the specification
  (AttributePathEvaluator): an empty path gives the empty string without a look at the
  document; a malformed document, a path that selects nothing and a selected value that is
  not a string give the empty string; otherwise the selected string is the result.
\<close>

definition searchJSONForAttr :: "'jwt env \<Rightarrow> string \<Rightarrow> bytes \<Rightarrow> string" where
  "searchJSONForAttr env attributePath data =
     (if attributePath = [] then []
      else case decodeJSON env data of
             None \<Rightarrow> []
           | Some doc \<Rightarrow>
               (case searchPath env attributePath doc of
                  Some (JString val) \<Rightarrow> val
                | _ \<Rightarrow> []))"

subsection \<open>The methods of the source\<close>

definition extractEmail :: "OktaClaims \<Rightarrow> string" where
  "extractEmail claims =
     (if OktaClaims.Email claims = [] then
        (if PreferredUsername claims \<noteq> [] then PreferredUsername claims
         else OktaClaims.Email claims)
      else OktaClaims.Email claims)"

definition extractRole :: "'jwt env \<Rightarrow> SocialOkta \<Rightarrow> OktaUserInfoJson \<Rightarrow> string" where
  "extractRole env s data =
     (if roleAttributePath s \<noteq> [] then
        (let role = searchJSONForAttr env (roleAttributePath s) (rawJSON data)
         in if role \<noteq> [] then role else [])
      else [])"

text \<open>
  \<^verbatim>\<open>extractAPI\<close> writes through the pointer \<^verbatim>\<open>data\<close>: the model returns the
  document after the call, then the flag, then the effects.
\<close>

definition extractAPI ::
    "'jwt env \<Rightarrow> SocialOkta \<Rightarrow> OktaUserInfoJson \<Rightarrow> world \<Rightarrow> OktaUserInfoJson \<times> bool \<times> world" where
  "extractAPI env s data client =
     (case HttpGet env client (apiUrl s) of
        (Failed err, client1) \<Rightarrow>
          (data, False, log_Debug ''Error getting user info response'' client1)
      | (Body body, client1) \<Rightarrow>
          (let data1 = data\<lparr>rawJSON := body\<rparr> in
           case json_Unmarshal env (rawJSON data1) data1 of
             (data2, Some err) \<Rightarrow>
               (data2\<lparr>rawJSON := []\<rparr>, False,
                log_Error ''Error decoding user info response'' client1)
           | (data2, None) \<Rightarrow>
               (data2, True, log_Debug ''Received user info response'' client1)))"

definition GetGroups :: "'jwt env \<Rightarrow> SocialOkta \<Rightarrow> world \<Rightarrow> string list \<times> world" where
  "GetGroups env s client =
     (let groups = [] in
      case extractAPI env s zeroOktaUserInfoJson client of
        (data, _, client1) \<Rightarrow>
          (let groups = (if length (OktaUserInfoJson.Groups data) > 0
                         then OktaUserInfoJson.Groups data
                         else groups)
           in (groups, client1)))"

definition UserInfo ::
    "'jwt env \<Rightarrow> SocialOkta \<Rightarrow> world \<Rightarrow> Token \<Rightarrow> (failure + BasicUserInfo) \<times> world" where
  "UserInfo env s client token =
     (case Extra token ''id_token'' of
        None \<Rightarrow> (Inl (Error ''No id_token found''), client)
      | Some (IString idToken) \<Rightarrow>
          (case ParseSigned env idToken of
             None \<Rightarrow> (Inl (Error ''Error parsing id token''), client)
           | Some parsedToken \<Rightarrow>
               (case UnsafeClaimsWithoutVerification env parsedToken of
                  None \<Rightarrow> (Inl (Error ''Error getting claims from id token''), client)
                | Some claims \<Rightarrow>
                    (let email = extractEmail claims in
                     if email = [] then
                       (Inl (Error ''Error getting user info: No email found in access token''),
                        client)
                     else
                       (case extractAPI env s zeroOktaUserInfoJson client of
                          (data, _, client1) \<Rightarrow>
                            (let role = extractRole env s data in
                             case GetGroups env s client1 of
                               (groups, client2) \<Rightarrow>
                                 (Inr \<lparr>Id = ID claims, Name = OktaClaims.Name claims,
                                       Email = email, Login = email, Role = role,
                                       Groups = groups\<rparr>,
                                  client2))))))
      | Some _ \<Rightarrow> (Inl Panic, client))"

text \<open>
  One call of \<^verbatim>\<open>UserInfo\<close> that gets past the token fetches two documents: the
  one its own call of \<^verbatim>\<open>extractAPI\<close> fills, which the role is read from, and the
  one the call of \<^verbatim>\<open>extractAPI\<close> inside \<^verbatim>\<open>GetGroups\<close> fills, which
  the groups are read from.
\<close>

definition document_for_role :: "'jwt env \<Rightarrow> SocialOkta \<Rightarrow> world \<Rightarrow> OktaUserInfoJson" where
  "document_for_role env s client = fst (extractAPI env s zeroOktaUserInfoJson client)"

definition document_for_groups :: "'jwt env \<Rightarrow> SocialOkta \<Rightarrow> world \<Rightarrow> OktaUserInfoJson" where
  "document_for_groups env s client =
     fst (extractAPI env s zeroOktaUserInfoJson
            (snd (snd (extractAPI env s zeroOktaUserInfoJson client))))"

subsection \<open>A provider, tokens and responses to run the methods on\<close>

text \<open>
  The scenarios of section 8 of the specification, and the inputs of the examples below.
  The three tokens are JWS compact serialisations whose payloads are the claim sets
  \<^verbatim>\<open>{"sub":"123","email":"a@b.com","name":"A B"}\<close>,
  \<^verbatim>\<open>{"sub":"7","email":"","preferred_username":"u@example.com"}\<close> and
  \<^verbatim>\<open>{"sub":"9","name":"N N"}\<close>.
\<close>

definition okta :: SocialOkta where
  "okta =
     \<lparr>apiUrl = ''https://dev.okta.example/oauth2/v1/userinfo'', allowedDomains = [],
      allowedGroups = [], allowSignup = True, roleAttributePath = ''attrs.role''\<rparr>"

definition start :: world where
  "start = \<lparr>requests = [], logged = []\<rparr>"

definition token_with :: "iface \<Rightarrow> Token" where
  "token_with v = \<lparr>raw = [''id_token'' \<mapsto> v]\<rparr>"

definition token_without :: Token where
  "token_without = \<lparr>raw = Map.empty\<rparr>"

definition jws_a_b :: string where
  "jws_a_b =
     ''eyJhbGciOiJSUzI1NiJ9.eyJzdWIiOiIxMjMiLCJlbWFpbCI6ImFAYi5jb20iLCJuYW1lIjoiQSBCIn0.c2ln''"

definition jws_fallback :: string where
  "jws_fallback =
     ''eyJhbGciOiJSUzI1NiJ9.eyJzdWIiOiI3IiwiZW1haWwiOiIiLCJwcmVmZXJyZWRfdXNlcm5hbWUiOiJ1QGV4YW1wbGUuY29tIn0.c2ln''"

definition jws_no_email :: string where
  "jws_no_email = ''eyJhbGciOiJSUzI1NiJ9.eyJzdWIiOiI5IiwibmFtZSI6Ik4gTiJ9.c2ln''"

text \<open>The token parser at these three strings; any other string used below is malformed.\<close>

definition example_ParseSigned :: "string \<Rightarrow> json option" where
  "example_ParseSigned idToken =
     (if idToken = jws_a_b then
        Some (JObject [(''sub'', JString ''123''), (''email'', JString ''a@b.com''),
                       (''name'', JString ''A B'')])
      else if idToken = jws_fallback then
        Some (JObject [(''sub'', JString ''7''), (''email'', JString []),
                       (''preferred_username'', JString ''u@example.com'')])
      else if idToken = jws_no_email then
        Some (JObject [(''sub'', JString ''9''), (''name'', JString ''N N'')])
      else None)"

text \<open>
  Decoding a payload into \<^verbatim>\<open>OktaClaims\<close> by the JSON tags of the struct: a
  missing or null member leaves the field empty, a member that is not a string is an error.
\<close>

definition text_member :: "(string \<times> json) list \<Rightarrow> string \<Rightarrow> string option" where
  "text_member members key =
     (case map_of members key of
        None \<Rightarrow> Some []
      | Some JNull \<Rightarrow> Some []
      | Some (JString v) \<Rightarrow> Some v
      | Some _ \<Rightarrow> None)"

definition example_Claims :: "json \<Rightarrow> OktaClaims option" where
  "example_Claims payload =
     (case payload of
        JObject members \<Rightarrow>
          (case (text_member members ''sub'', text_member members ''email'',
                 text_member members ''preferred_username'', text_member members ''name'') of
             (Some i, Some e, Some p, Some n) \<Rightarrow>
               Some \<lparr>ID = i, OktaClaims.Email = e, PreferredUsername = p, OktaClaims.Name = n\<rparr>
           | _ \<Rightarrow> None)
      | _ \<Rightarrow> None)"

text \<open>
  Response bodies: the one of the end-to-end scenario; one that is not JSON; two that are
  valid JSON but hold a number where the struct has a string; the document of the
  evaluator's examples in section 8.
\<close>

definition body_eng_editor :: bytes where
  \<open>body_eng_editor = ''{"groups":["eng"], "attrs":{"role":"editor"}}''\<close>

definition body_name_is_number :: bytes where
  \<open>body_name_is_number = ''{"groups":["eng"],"name":1}''\<close>

definition body_not_json :: bytes where
  "body_not_json = ''<html>Service Unavailable</html>''"

definition body_login_name_is_number :: bytes where
  \<open>body_login_name_is_number = ''{"groups":["eng"],"login":"jdoe","name":1}''\<close>

definition body_info_admin :: bytes where
  \<open>body_info_admin = ''{"info":{"role":"admin"}}''\<close>

text \<open>
  \<^verbatim>\<open>json.Unmarshal\<close> into an \<^verbatim>\<open>OktaUserInfoJson\<close> at these bodies; any
  other body used below is not JSON. The package checks the syntax of the whole input
  first and leaves the target untouched on a syntax error. On a JSON value that is not
  appropriate for the type of a field, its documentation has it skip that field, complete
  the decoding of the others as best it can, and return an
  \<^verbatim>\<open>UnmarshalTypeError\<close> for the earliest such field: for the two bodies with
  a number as name, the groups (and the login) are stored although an error is returned.
\<close>

definition example_Unmarshal ::
    "bytes \<Rightarrow> OktaUserInfoJson \<Rightarrow> OktaUserInfoJson \<times> string option" where
  "example_Unmarshal bs data =
     (if bs = body_eng_editor then (data\<lparr>OktaUserInfoJson.Groups := [''eng'']\<rparr>, None)
      else if bs = body_name_is_number then
        (data\<lparr>OktaUserInfoJson.Groups := [''eng'']\<rparr>,
         Some ''json: cannot unmarshal number into Go struct field OktaUserInfoJson.name of type string'')
      else if bs = body_login_name_is_number then
        (data\<lparr>OktaUserInfoJson.Groups := [''eng''], OktaUserInfoJson.Login := ''jdoe''\<rparr>,
         Some ''json: cannot unmarshal number into Go struct field OktaUserInfoJson.name of type string'')
      else if bs = body_info_admin then (data, None)
      else (data, Some ''invalid character''))"

text \<open>
  Generic JSON decoding at the same bodies: the four that are JSON have a value, any other
  byte sequence used below (the empty one, the HTML page) has none.
\<close>

definition example_decodeJSON :: "bytes \<Rightarrow> json option" where
  "example_decodeJSON bs =
     (if bs = body_eng_editor then
        Some (JObject [(''groups'', JArray [JString ''eng'']),
                       (''attrs'', JObject [(''role'', JString ''editor'')])])
      else if bs = body_name_is_number then
        Some (JObject [(''groups'', JArray [JString ''eng'']), (''name'', JNumber 1)])
      else if bs = body_login_name_is_number then
        Some (JObject [(''groups'', JArray [JString ''eng'']), (''login'', JString ''jdoe''),
                       (''name'', JNumber 1)])
      else if bs = body_info_admin then
        Some (JObject [(''info'', JObject [(''role'', JString ''admin'')])])
      else None)"

text \<open>
  The fragment of the path language that the scenarios use: keys separated by dots, each
  selecting a member of the object reached so far.
\<close>

fun split_dots :: "string \<Rightarrow> string list" where
  "split_dots [] = [[]]"
| "split_dots (c # cs) =
     (if c = CHR ''.'' then [] # split_dots cs
      else (case split_dots cs of k # ks \<Rightarrow> (c # k) # ks | [] \<Rightarrow> [[c]]))"

fun select_keys :: "string list \<Rightarrow> json \<Rightarrow> json option" where
  "select_keys [] v = Some v"
| "select_keys (k # ks) (JObject members) =
     (case map_of members k of None \<Rightarrow> None | Some v \<Rightarrow> select_keys ks v)"
| "select_keys (k # ks) v = None"

definition dotted_keys :: "string \<Rightarrow> json \<Rightarrow> json option" where
  "dotted_keys path doc = select_keys (split_dots path) doc"

text \<open>Networks: one that answers every request alike, one that answers from a script.\<close>

definition always :: "http_result \<Rightarrow> nat \<Rightarrow> string \<Rightarrow> http_result" where
  "always r n url = r"

definition script :: "http_result list \<Rightarrow> nat \<Rightarrow> string \<Rightarrow> http_result" where
  "script rs n url = (if n < length rs then rs ! n else Failed ''connection refused'')"

definition example_env :: "(nat \<Rightarrow> string \<Rightarrow> http_result) \<Rightarrow> json env" where
  "example_env net =
     \<lparr>ParseSigned = example_ParseSigned, UnsafeClaimsWithoutVerification = example_Claims,
      network = net, Unmarshal = example_Unmarshal, decodeJSON = example_decodeJSON,
      searchPath = dotted_keys\<rparr>"

section \<open>Properties\<close>

subsection \<open>What \<^verbatim>\<open>UserInfo\<close> does, case by case\<close>

lemma extractAPI_requests:
  "requests (snd (snd (extractAPI env s data client))) = requests client @ [apiUrl s]"
  by (simp add: extractAPI_def HttpGet_def log_Debug_def log_Error_def Let_def
      split: http_result.split prod.split option.split)

lemma GetGroups_requests:
  "requests (snd (GetGroups env s client)) = requests client @ [apiUrl s]"
  using extractAPI_requests [of env s zeroOktaUserInfoJson client]
  by (auto simp: GetGroups_def Let_def split: prod.split)

lemma GetGroups_groups:
  "fst (GetGroups env s client) =
     OktaUserInfoJson.Groups (fst (extractAPI env s zeroOktaUserInfoJson client))"
  by (simp add: GetGroups_def Let_def split: prod.split)

lemma UserInfo_success:
  assumes "Extra token ''id_token'' = Some (IString t)"
    and "ParseSigned env t = Some p"
    and "UnsafeClaimsWithoutVerification env p = Some c"
    and "extractEmail c \<noteq> []"
  shows "UserInfo env s client token =
           (Inr \<lparr>Id = ID c, Name = OktaClaims.Name c, Email = extractEmail c,
                 Login = extractEmail c,
                 Role = extractRole env s (fst (extractAPI env s zeroOktaUserInfoJson client)),
                 Groups = fst (GetGroups env s
                            (snd (snd (extractAPI env s zeroOktaUserInfoJson client))))\<rparr>,
            snd (GetGroups env s (snd (snd (extractAPI env s zeroOktaUserInfoJson client)))))"
  using assms by (simp add: UserInfo_def Let_def split: prod.split)

lemma UserInfo_Inr_cases:
  assumes "fst (UserInfo env s client token) = Inr u"
  obtains t p c where "Extra token ''id_token'' = Some (IString t)"
    and "ParseSigned env t = Some p"
    and "UnsafeClaimsWithoutVerification env p = Some c"
    and "extractEmail c \<noteq> []"
  using assms
  by (auto simp: UserInfo_def Let_def split: option.splits iface.splits if_splits prod.splits)

lemma UserInfo_Inl_world:
  assumes "fst (UserInfo env s client token) = Inl e"
  shows "snd (UserInfo env s client token) = client"
  using assms
  by (auto simp: UserInfo_def Let_def split: option.splits iface.splits if_splits prod.splits)

subsection \<open>The scenarios, run\<close>

lemmas method_defs =
  UserInfo_def GetGroups_def extractAPI_def extractRole_def extractEmail_def
  searchJSONForAttr_def json_Unmarshal_def HttpGet_def Extra_def log_Debug_def log_Error_def
  zeroOktaUserInfoJson_def document_for_role_def document_for_groups_def Let_def

lemmas example_defs =
  okta_def start_def token_with_def token_without_def jws_a_b_def jws_fallback_def
  jws_no_email_def example_ParseSigned_def text_member_def example_Claims_def
  body_eng_editor_def body_name_is_number_def body_login_name_is_number_def
  body_not_json_def body_info_admin_def example_Unmarshal_def
  example_decodeJSON_def dotted_keys_def always_def script_def example_env_def

lemma run_end_to_end:
  "UserInfo (example_env (always (Body body_eng_editor))) okta start (token_with (IString jws_a_b)) =
     (Inr \<lparr>Id = ''123'', Name = ''A B'', Email = ''a@b.com'', Login = ''a@b.com'',
           Role = ''editor'', Groups = [''eng'']\<rparr>,
      \<lparr>requests = [apiUrl okta, apiUrl okta],
       logged = [(Debug, ''Received user info response''),
                 (Debug, ''Received user info response'')]\<rparr>)"
  by (simp add: method_defs example_defs)


lemma token_a_b:
  "Extra (token_with (IString jws_a_b)) ''id_token'' = Some (IString jws_a_b)"
  "ParseSigned (example_env net) jws_a_b =
     Some (JObject [(''sub'', JString ''123''), (''email'', JString ''a@b.com''),
                    (''name'', JString ''A B'')])"
  "UnsafeClaimsWithoutVerification (example_env net)
     (JObject [(''sub'', JString ''123''), (''email'', JString ''a@b.com''),
               (''name'', JString ''A B'')]) =
     Some \<lparr>ID = ''123'', OktaClaims.Email = ''a@b.com'', PreferredUsername = [],
           OktaClaims.Name = ''A B''\<rparr>"
  "extractEmail \<lparr>ID = ''123'', OktaClaims.Email = ''a@b.com'', PreferredUsername = [],
                 OktaClaims.Name = ''A B''\<rparr> \<noteq> []"
  by (simp_all add: method_defs example_defs)

subsection \<open>Requests sent\<close>

text \<open>
  Claim C1, as the specification states it: every call of \<^verbatim>\<open>UserInfo\<close> sends at most
  one request. It fails: in the end-to-end scenario the client sends two requests, both to
  the user-info endpoint, the first from \<^verbatim>\<open>UserInfo\<close>'s own call of
  \<^verbatim>\<open>extractAPI\<close> and the second from the call inside \<^verbatim>\<open>GetGroups\<close>.
\<close>

theorem UserInfo_single_request_counterexample:
  "requests (snd (UserInfo (example_env (always (Body body_eng_editor))) okta start
                    (token_with (IString jws_a_b)))) = [apiUrl okta, apiUrl okta]
   \<and> \<not> length (requests (snd (UserInfo (example_env (always (Body body_eng_editor))) okta start
                               (token_with (IString jws_a_b)))))
         \<le> length (requests start) + 1"
  by (simp add: run_end_to_end) (simp add: start_def)

text \<open>
  Claim C1, amended: a call that fails sends no request; a call that returns an identity
  sends exactly two, both to the configured user-info URL.
\<close>

theorem UserInfo_requests:
  "requests (snd (UserInfo env s client token)) =
     requests client @
       (case fst (UserInfo env s client token) of
          Inl e \<Rightarrow> []
        | Inr u \<Rightarrow> [apiUrl s, apiUrl s])"
proof (cases "fst (UserInfo env s client token)")
  case (Inl e)
  then show ?thesis using UserInfo_Inl_world [of env s client token e] by simp
next
  case (Inr u)
  then obtain t p c where h: "Extra token ''id_token'' = Some (IString t)"
    "ParseSigned env t = Some p" "UnsafeClaimsWithoutVerification env p = Some c"
    "extractEmail c \<noteq> []"
    by (rule UserInfo_Inr_cases)
  show ?thesis
    using Inr by (simp add: UserInfo_success [OF h] GetGroups_requests extractAPI_requests)
qed

theorem UserInfo_requests_witness:
  "requests (snd (UserInfo (example_env (always (Body body_eng_editor))) okta start
                    (token_with (IString jws_a_b)))) = [apiUrl okta, apiUrl okta]
   \<and> requests (snd (UserInfo (example_env (always (Body body_eng_editor))) okta start
                    token_without)) = []"
  using UserInfo_requests [of "example_env (always (Body body_eng_editor))" okta start
          "token_with (IString jws_a_b)"]
        UserInfo_requests [of "example_env (always (Body body_eng_editor))" okta start
          token_without]
  by (simp add: run_end_to_end) (simp add: method_defs example_defs)

subsection \<open>The email of a resolved identity\<close>

text \<open>
  Claim C2: an identity that \<^verbatim>\<open>UserInfo\<close> returns has a non-empty email; and when
  the claims of the token have both \<^verbatim>\<open>email\<close> and
  \<^verbatim>\<open>preferred_username\<close> empty, the call fails with the no-email error, before any
  request and with no effect.
\<close>

theorem UserInfo_email_never_empty:
  "(fst (UserInfo env s client token) = Inr u \<longrightarrow> Email u \<noteq> [])
   \<and> (Extra token ''id_token'' = Some (IString t) \<and> ParseSigned env t = Some p
        \<and> UnsafeClaimsWithoutVerification env p = Some c
        \<and> OktaClaims.Email c = [] \<and> PreferredUsername c = []
      \<longrightarrow> UserInfo env s client token =
            (Inl (Error ''Error getting user info: No email found in access token''), client))"
proof (intro conjI impI)
  assume ok: "fst (UserInfo env s client token) = Inr u"
  then obtain t' p' c' where h: "Extra token ''id_token'' = Some (IString t')"
    "ParseSigned env t' = Some p'" "UnsafeClaimsWithoutVerification env p' = Some c'"
    "extractEmail c' \<noteq> []"
    by (rule UserInfo_Inr_cases)
  from ok h(4) show "Email u \<noteq> []"
    by (auto simp: UserInfo_success [OF h])
next
  assume "Extra token ''id_token'' = Some (IString t) \<and> ParseSigned env t = Some p
        \<and> UnsafeClaimsWithoutVerification env p = Some c
        \<and> OktaClaims.Email c = [] \<and> PreferredUsername c = []"
  then show "UserInfo env s client token =
            (Inl (Error ''Error getting user info: No email found in access token''), client)"
    by (simp add: UserInfo_def extractEmail_def)
qed

theorem UserInfo_email_never_empty_witness:
  "fst (UserInfo (example_env (always (Body body_eng_editor))) okta start
          (token_with (IString jws_a_b))) =
     Inr \<lparr>Id = ''123'', Name = ''A B'', Email = ''a@b.com'', Login = ''a@b.com'',
          Role = ''editor'', Groups = [''eng'']\<rparr>
   \<and> ''a@b.com'' \<noteq> []
   \<and> Extra (token_with (IString jws_no_email)) ''id_token'' = Some (IString jws_no_email)
   \<and> ParseSigned (example_env (always (Body body_eng_editor))) jws_no_email =
       Some (JObject [(''sub'', JString ''9''), (''name'', JString ''N N'')])
   \<and> UnsafeClaimsWithoutVerification (example_env (always (Body body_eng_editor)))
        (JObject [(''sub'', JString ''9''), (''name'', JString ''N N'')]) =
       Some \<lparr>ID = ''9'', OktaClaims.Email = [], PreferredUsername = [], OktaClaims.Name = ''N N''\<rparr>
   \<and> UserInfo (example_env (always (Body body_eng_editor))) okta start
        (token_with (IString jws_no_email)) =
       (Inl (Error ''Error getting user info: No email found in access token''), start)"
  using UserInfo_email_never_empty [of "example_env (always (Body body_eng_editor))" okta start
          "token_with (IString jws_a_b)"
          "\<lparr>Id = ''123'', Name = ''A B'', Email = ''a@b.com'', Login = ''a@b.com'',
            Role = ''editor'', Groups = [''eng'']\<rparr>"]
        UserInfo_email_never_empty [of "example_env (always (Body body_eng_editor))" okta start
          "token_with (IString jws_no_email)" _ jws_no_email
          "JObject [(''sub'', JString ''9''), (''name'', JString ''N N'')]"
          "\<lparr>ID = ''9'', OktaClaims.Email = [], PreferredUsername = [], OktaClaims.Name = ''N N''\<rparr>"]
  by (simp add: run_end_to_end) (simp add: method_defs example_defs)

subsection \<open>The raw bytes of a response that does not decode\<close>

text \<open>
  Claim C3, as the specification states it: when the bytes of a response are received but
  do not decode, \<^verbatim>\<open>rawJSON\<close> still holds them after \<^verbatim>\<open>extractAPI\<close>
  returns. It fails: on the decode error the method assigns \<^verbatim>\<open>[]byte{}\<close> to
  \<^verbatim>\<open>rawJSON\<close>, so for a body that is not JSON the field is empty afterwards.
\<close>

theorem extractAPI_discards_undecodable_counterexample:
  "network (example_env (always (Body body_not_json))) (length (requests start)) (apiUrl okta) =
     Body body_not_json
   \<and> snd (Unmarshal (example_env (always (Body body_not_json))) body_not_json
            (zeroOktaUserInfoJson\<lparr>rawJSON := body_not_json\<rparr>)) = Some ''invalid character''
   \<and> rawJSON (fst (extractAPI (example_env (always (Body body_not_json))) okta
                      zeroOktaUserInfoJson start)) = []
   \<and> rawJSON (fst (extractAPI (example_env (always (Body body_not_json))) okta
                      zeroOktaUserInfoJson start)) \<noteq> body_not_json"
  by (simp add: method_defs example_defs)

text \<open>
  Claim C3, amended: when the bytes of a response are received, \<^verbatim>\<open>rawJSON\<close> holds
  them after \<^verbatim>\<open>extractAPI\<close> returns if they decode, and is empty if they do
  not.
\<close>

theorem extractAPI_rawJSON:
  assumes "network env (length (requests client)) (apiUrl s) = Body body"
  shows "rawJSON (fst (extractAPI env s data client)) =
           (case snd (Unmarshal env body (data\<lparr>rawJSON := body\<rparr>)) of
              None \<Rightarrow> body
            | Some err \<Rightarrow> [])"
  using assms
  by (simp add: extractAPI_def HttpGet_def json_Unmarshal_def Let_def
      split: prod.split option.split)

theorem extractAPI_rawJSON_witness:
  "network (example_env (always (Body body_eng_editor))) (length (requests start)) (apiUrl okta) =
     Body body_eng_editor
   \<and> rawJSON (fst (extractAPI (example_env (always (Body body_eng_editor))) okta
                      zeroOktaUserInfoJson start)) = body_eng_editor
   \<and> network (example_env (always (Body body_not_json))) (length (requests start)) (apiUrl okta) =
     Body body_not_json
   \<and> rawJSON (fst (extractAPI (example_env (always (Body body_not_json))) okta
                      zeroOktaUserInfoJson start)) = []"
proof -
  have a: "network (example_env (always (Body body_eng_editor))) (length (requests start))
             (apiUrl okta) = Body body_eng_editor"
    and b: "network (example_env (always (Body body_not_json))) (length (requests start))
             (apiUrl okta) = Body body_not_json"
    by (simp_all add: example_defs)
  show ?thesis
    using a b extractAPI_rawJSON [OF a, of zeroOktaUserInfoJson]
      extractAPI_rawJSON [OF b, of zeroOktaUserInfoJson]
    by (simp add: method_defs example_defs)
qed

subsection \<open>A fetch that fails\<close>







subsection \<open>A malformed identity token\<close>

text \<open>
  Claim C5: when the identity token is a string that the parser rejects,
  \<^verbatim>\<open>UserInfo\<close> fails with the token-parse error, and nothing has been requested or
  logged: the effects are those before the call.
\<close>

theorem UserInfo_malformed_token:
  assumes "Extra token ''id_token'' = Some (IString t)"
    and "ParseSigned env t = None"
  shows "UserInfo env s client token = (Inl (Error ''Error parsing id token''), client)"
  using assms by (simp add: UserInfo_def)

theorem UserInfo_malformed_token_witness:
  "Extra (token_with (IString ''not.a.token'')) ''id_token'' = Some (IString ''not.a.token'')
   \<and> ParseSigned (example_env (always (Body body_eng_editor))) ''not.a.token'' = None
   \<and> UserInfo (example_env (always (Body body_eng_editor))) okta start
        (token_with (IString ''not.a.token'')) =
       (Inl (Error ''Error parsing id token''), \<lparr>requests = [], logged = []\<rparr>)"
proof -
  have a: "Extra (token_with (IString ''not.a.token'')) ''id_token'' = Some (IString ''not.a.token'')"
    and b: "ParseSigned (example_env (always (Body body_eng_editor))) ''not.a.token'' = None"
    by (simp_all add: method_defs example_defs)
  show ?thesis
    using a b UserInfo_malformed_token [OF a b, of okta start]
    by (simp add: start_def)
qed

subsection \<open>The derived email\<close>

text \<open>
  Claim C6: \<^verbatim>\<open>extractEmail\<close> returns the \<^verbatim>\<open>email\<close> claim when it is not
  empty and the \<^verbatim>\<open>preferred_username\<close> claim otherwise; with an empty email and
  \<^verbatim>\<open>preferred_username = "u@example.com"\<close> it returns
  \<^verbatim>\<open>"u@example.com"\<close>; with both empty it returns the empty string, a value and
  not an error.
\<close>

theorem extractEmail_fallback:
  "extractEmail claims =
     (if OktaClaims.Email claims \<noteq> [] then OktaClaims.Email claims
      else PreferredUsername claims)
   \<and> extractEmail \<lparr>ID = i, OktaClaims.Email = [], PreferredUsername = ''u@example.com'',
                   OktaClaims.Name = n\<rparr> = ''u@example.com''
   \<and> (OktaClaims.Email claims = [] \<and> PreferredUsername claims = []
        \<longrightarrow> extractEmail claims = [])"
  by (simp add: extractEmail_def)

theorem extractEmail_fallback_witness:
  "extractEmail \<lparr>ID = ''9'', OktaClaims.Email = [], PreferredUsername = [],
                  OktaClaims.Name = ''N N''\<rparr> = []
   \<and> extractEmail \<lparr>ID = ''7'', OktaClaims.Email = [], PreferredUsername = ''u@example.com'',
                  OktaClaims.Name = []\<rparr> = ''u@example.com''
   \<and> extractEmail \<lparr>ID = ''123'', OktaClaims.Email = ''a@b.com'',
                  PreferredUsername = ''ab'', OktaClaims.Name = ''A B''\<rparr> = ''a@b.com''"
  using extractEmail_fallback [of "\<lparr>ID = ''9'', OktaClaims.Email = [], PreferredUsername = [],
                  OktaClaims.Name = ''N N''\<rparr>"]
    extractEmail_fallback [of "\<lparr>ID = ''123'', OktaClaims.Email = ''a@b.com'',
                  PreferredUsername = ''ab'', OktaClaims.Name = ''A B''\<rparr>" "''7''" "[]"]
  by simp

subsection \<open>The identity that is returned\<close>

text \<open>
  Claim C7, as the specification states it: the groups of a returned identity are those of
  the fetched document, the one whose raw bytes the role is extracted from. It fails:
  \<^verbatim>\<open>UserInfo\<close> reads the role from the document of its own request and then
  calls \<^verbatim>\<open>GetGroups\<close>, which sends a request of its own and reads the groups
  from that second document. When the first request is answered with the body of the
  end-to-end scenario and the second times out, the document the role \<^verbatim>\<open>editor\<close>
  is read from has the groups \<^verbatim>\<open>["eng"]\<close>, and the identity has none.
\<close>

theorem UserInfo_groups_document_counterexample:
  "fst (UserInfo (example_env (script [Body body_eng_editor, Failed ''timeout''])) okta start
          (token_with (IString jws_a_b))) =
     Inr \<lparr>Id = ''123'', Name = ''A B'', Email = ''a@b.com'', Login = ''a@b.com'',
          Role = ''editor'', Groups = []\<rparr>
   \<and> extractRole (example_env (script [Body body_eng_editor, Failed ''timeout''])) okta
        (document_for_role (example_env (script [Body body_eng_editor, Failed ''timeout'']))
           okta start) = ''editor''
   \<and> OktaUserInfoJson.Groups
        (document_for_role (example_env (script [Body body_eng_editor, Failed ''timeout'']))
           okta start) = [''eng'']
   \<and> Groups (projr (fst (UserInfo
                 (example_env (script [Body body_eng_editor, Failed ''timeout''])) okta start
                 (token_with (IString jws_a_b))))) \<noteq>
       (if OktaUserInfoJson.Groups
             (document_for_role (example_env (script [Body body_eng_editor, Failed ''timeout'']))
                okta start) \<noteq> []
        then OktaUserInfoJson.Groups
             (document_for_role (example_env (script [Body body_eng_editor, Failed ''timeout'']))
                okta start)
        else [])"
  by (simp add: method_defs example_defs)

text \<open>
  Claim C7, amended: an identity that \<^verbatim>\<open>UserInfo\<close> returns has the subject claim
  as id, the name claim as name, the derived email as email and as login, the role that
  \<^verbatim>\<open>extractRole\<close> reads from the document fetched by the request of
  \<^verbatim>\<open>UserInfo\<close>, and the groups of the document fetched by the separate request
  of \<^verbatim>\<open>GetGroups\<close> if there are any, else no groups. In the end-to-end scenario
  of section 8, where the endpoint answers every request with the same body, the identity
  is exactly the one the specification gives.
\<close>

theorem UserInfo_assembles_identity:
  "(fst (UserInfo env s client token) = Inr u \<longrightarrow>
      Login u = Email u
      \<and> (\<exists>t p claims.
           Extra token ''id_token'' = Some (IString t) \<and> ParseSigned env t = Some p
           \<and> UnsafeClaimsWithoutVerification env p = Some claims
           \<and> u = \<lparr>Id = ID claims, Name = OktaClaims.Name claims, Email = extractEmail claims,
                   Login = extractEmail claims,
                   Role = extractRole env s (document_for_role env s client),
                   Groups =
                     (if OktaUserInfoJson.Groups (document_for_groups env s client) \<noteq> []
                      then OktaUserInfoJson.Groups (document_for_groups env s client)
                      else [])\<rparr>))
   \<and> fst (UserInfo (example_env (always (Body body_eng_editor))) okta start
            (token_with (IString jws_a_b))) =
       Inr \<lparr>Id = ''123'', Name = ''A B'', Email = ''a@b.com'', Login = ''a@b.com'',
            Role = ''editor'', Groups = [''eng'']\<rparr>"
proof (intro conjI impI)
  assume ok: "fst (UserInfo env s client token) = Inr u"
  then obtain t p c where h: "Extra token ''id_token'' = Some (IString t)"
    "ParseSigned env t = Some p" "UnsafeClaimsWithoutVerification env p = Some c"
    "extractEmail c \<noteq> []"
    by (rule UserInfo_Inr_cases)
  from ok have u: "u = \<lparr>Id = ID c, Name = OktaClaims.Name c, Email = extractEmail c,
                   Login = extractEmail c,
                   Role = extractRole env s (document_for_role env s client),
                   Groups =
                     (if OktaUserInfoJson.Groups (document_for_groups env s client) \<noteq> []
                      then OktaUserInfoJson.Groups (document_for_groups env s client)
                      else [])\<rparr>"
    by (auto simp: UserInfo_success [OF h] GetGroups_groups document_for_role_def
        document_for_groups_def)
  then show "Login u = Email u" by simp
  from u h show "\<exists>t p claims.
           Extra token ''id_token'' = Some (IString t) \<and> ParseSigned env t = Some p
           \<and> UnsafeClaimsWithoutVerification env p = Some claims
           \<and> u = \<lparr>Id = ID claims, Name = OktaClaims.Name claims, Email = extractEmail claims,
                   Login = extractEmail claims,
                   Role = extractRole env s (document_for_role env s client),
                   Groups =
                     (if OktaUserInfoJson.Groups (document_for_groups env s client) \<noteq> []
                      then OktaUserInfoJson.Groups (document_for_groups env s client)
                      else [])\<rparr>"
    by blast
next
  show "fst (UserInfo (example_env (always (Body body_eng_editor))) okta start
            (token_with (IString jws_a_b))) =
       Inr \<lparr>Id = ''123'', Name = ''A B'', Email = ''a@b.com'', Login = ''a@b.com'',
            Role = ''editor'', Groups = [''eng'']\<rparr>"
    by (simp add: run_end_to_end)
qed

theorem UserInfo_assembles_identity_witness:
  "fst (UserInfo (example_env (always (Body body_eng_editor))) okta start
          (token_with (IString jws_fallback))) =
     Inr \<lparr>Id = ''7'', Name = [], Email = ''u@example.com'', Login = ''u@example.com'',
          Role = ''editor'', Groups = [''eng'']\<rparr>
   \<and> OktaUserInfoJson.Groups
        (document_for_groups (example_env (always (Body body_eng_editor))) okta start) = [''eng'']
   \<and> extractRole (example_env (always (Body body_eng_editor))) okta
        (document_for_role (example_env (always (Body body_eng_editor))) okta start) = ''editor''
   \<and> fst (UserInfo (example_env (script [Body body_eng_editor, Failed ''timeout''])) okta start
            (token_with (IString jws_a_b))) =
     Inr \<lparr>Id = ''123'', Name = ''A B'', Email = ''a@b.com'', Login = ''a@b.com'',
          Role = ''editor'', Groups = []\<rparr>
   \<and> OktaUserInfoJson.Groups
        (document_for_groups (example_env (script [Body body_eng_editor, Failed ''timeout'']))
           okta start) = []"
  using UserInfo_assembles_identity [of "example_env (always (Body body_eng_editor))" okta start
          "token_with (IString jws_fallback)"
          "\<lparr>Id = ''7'', Name = [], Email = ''u@example.com'', Login = ''u@example.com'',
            Role = ''editor'', Groups = [''eng'']\<rparr>"]
        UserInfo_assembles_identity [of
          "example_env (script [Body body_eng_editor, Failed ''timeout''])" okta start
          "token_with (IString jws_a_b)"
          "\<lparr>Id = ''123'', Name = ''A B'', Email = ''a@b.com'', Login = ''a@b.com'',
            Role = ''editor'', Groups = []\<rparr>"]
  by (simp add: method_defs example_defs)

subsection \<open>Role extraction\<close>

text \<open>
  Claim C8: \<^verbatim>\<open>extractRole\<close> returns the empty string when the configured path is
  empty, whatever the document and the decoder are; it returns the empty string when the
  document is malformed, when the path selects nothing, and when the selected value is not
  a string; and a call of \<^verbatim>\<open>UserInfo\<close> whose token gives an email returns an
  identity with whatever role was extracted: the role never ends the call.
\<close>

theorem extractRole_silent_miss:
  "(roleAttributePath s = [] \<longrightarrow> extractRole env s data = [])
   \<and> (decodeJSON env (rawJSON data) = None \<longrightarrow> extractRole env s data = [])
   \<and> (decodeJSON env (rawJSON data) = Some doc \<and> searchPath env (roleAttributePath s) doc = None
        \<longrightarrow> extractRole env s data = [])
   \<and> (decodeJSON env (rawJSON data) = Some doc
        \<and> searchPath env (roleAttributePath s) doc = Some v \<and> (\<forall>x. v \<noteq> JString x)
        \<longrightarrow> extractRole env s data = [])
   \<and> (Extra token ''id_token'' = Some (IString t) \<and> ParseSigned env t = Some p
        \<and> UnsafeClaimsWithoutVerification env p = Some claims \<and> extractEmail claims \<noteq> []
        \<longrightarrow> (\<exists>u. fst (UserInfo env s client token) = Inr u
                 \<and> Role u = extractRole env s (document_for_role env s client)))"
proof (intro conjI impI)
  show "extractRole env s data = []" if "roleAttributePath s = []"
    using that by (simp add: extractRole_def)
  show "extractRole env s data = []" if "decodeJSON env (rawJSON data) = None"
    using that by (simp add: extractRole_def searchJSONForAttr_def)
  show "extractRole env s data = []"
    if "decodeJSON env (rawJSON data) = Some doc \<and> searchPath env (roleAttributePath s) doc = None"
    using that by (simp add: extractRole_def searchJSONForAttr_def)
  show "extractRole env s data = []"
    if "decodeJSON env (rawJSON data) = Some doc
        \<and> searchPath env (roleAttributePath s) doc = Some v \<and> (\<forall>x. v \<noteq> JString x)"
    using that by (cases v) (simp_all add: extractRole_def searchJSONForAttr_def)
  show "\<exists>u. fst (UserInfo env s client token) = Inr u
                 \<and> Role u = extractRole env s (document_for_role env s client)"
    if "Extra token ''id_token'' = Some (IString t) \<and> ParseSigned env t = Some p
        \<and> UnsafeClaimsWithoutVerification env p = Some claims \<and> extractEmail claims \<noteq> []"
    using that by (simp add: UserInfo_success document_for_role_def)
qed

theorem extractRole_silent_miss_witness:
  "roleAttributePath (okta\<lparr>roleAttributePath := []\<rparr>) = []
   \<and> extractRole (example_env (always (Body body_info_admin))) (okta\<lparr>roleAttributePath := []\<rparr>)
        (zeroOktaUserInfoJson\<lparr>rawJSON := body_info_admin\<rparr>) = []
   \<and> decodeJSON (example_env (always (Body body_info_admin))) body_not_json = None
   \<and> extractRole (example_env (always (Body body_info_admin)))
        (okta\<lparr>roleAttributePath := ''info.role''\<rparr>)
        (zeroOktaUserInfoJson\<lparr>rawJSON := body_not_json\<rparr>) = []
   \<and> decodeJSON (example_env (always (Body body_info_admin))) body_info_admin =
        Some (JObject [(''info'', JObject [(''role'', JString ''admin'')])])
   \<and> searchPath (example_env (always (Body body_info_admin))) ''info.missing''
        (JObject [(''info'', JObject [(''role'', JString ''admin'')])]) = None
   \<and> extractRole (example_env (always (Body body_info_admin)))
        (okta\<lparr>roleAttributePath := ''info.missing''\<rparr>)
        (zeroOktaUserInfoJson\<lparr>rawJSON := body_info_admin\<rparr>) = []
   \<and> searchPath (example_env (always (Body body_info_admin))) ''info''
        (JObject [(''info'', JObject [(''role'', JString ''admin'')])]) =
        Some (JObject [(''role'', JString ''admin'')])
   \<and> extractRole (example_env (always (Body body_info_admin)))
        (okta\<lparr>roleAttributePath := ''info''\<rparr>)
        (zeroOktaUserInfoJson\<lparr>rawJSON := body_info_admin\<rparr>) = []
   \<and> extractRole (example_env (always (Body body_info_admin)))
        (okta\<lparr>roleAttributePath := ''info.role''\<rparr>)
        (zeroOktaUserInfoJson\<lparr>rawJSON := body_info_admin\<rparr>) = ''admin''
   \<and> Extra (token_with (IString jws_a_b)) ''id_token'' = Some (IString jws_a_b)
   \<and> extractRole (example_env (always (Body body_info_admin)))
        (okta\<lparr>roleAttributePath := ''info.missing''\<rparr>)
        (document_for_role (example_env (always (Body body_info_admin)))
           (okta\<lparr>roleAttributePath := ''info.missing''\<rparr>) start) = []
   \<and> fst (UserInfo (example_env (always (Body body_info_admin)))
            (okta\<lparr>roleAttributePath := ''info.missing''\<rparr>) start
            (token_with (IString jws_a_b))) =
       Inr \<lparr>Id = ''123'', Name = ''A B'', Email = ''a@b.com'', Login = ''a@b.com'',
            Role = [], Groups = []\<rparr>"
proof -
  let ?env = "example_env (always (Body body_info_admin))"
  let ?doc = "JObject [(''info'', JObject [(''role'', JString ''admin'')])]"
  let ?missing = "okta\<lparr>roleAttributePath := ''info.missing''\<rparr>"
  have facts:
    "decodeJSON ?env body_not_json = None"
    "decodeJSON ?env body_info_admin = Some ?doc"
    "searchPath ?env ''info.missing'' ?doc = None"
    "searchPath ?env ''info'' ?doc = Some (JObject [(''role'', JString ''admin'')])"
    by (simp_all add: example_defs)
  have admin: "extractRole ?env (okta\<lparr>roleAttributePath := ''info.role''\<rparr>)
        (zeroOktaUserInfoJson\<lparr>rawJSON := body_info_admin\<rparr>) = ''admin''"
    by (simp add: method_defs example_defs)
  have fetched: "extractRole ?env ?missing (document_for_role ?env ?missing start) = []"
    and others: "Id (projr (fst (UserInfo ?env ?missing start (token_with (IString jws_a_b))))) = ''123''
      \<and> Name (projr (fst (UserInfo ?env ?missing start (token_with (IString jws_a_b))))) = ''A B''
      \<and> Email (projr (fst (UserInfo ?env ?missing start (token_with (IString jws_a_b))))) = ''a@b.com''
      \<and> Login (projr (fst (UserInfo ?env ?missing start (token_with (IString jws_a_b))))) = ''a@b.com''
      \<and> Groups (projr (fst (UserInfo ?env ?missing start (token_with (IString jws_a_b))))) = []"
    by (simp_all add: method_defs example_defs)
  have login: "\<exists>u. fst (UserInfo ?env ?missing start (token_with (IString jws_a_b))) = Inr u
                 \<and> Role u = extractRole ?env ?missing (document_for_role ?env ?missing start)"
    using extractRole_silent_miss [where env = ?env and s = ?missing and client = start
        and token = "token_with (IString jws_a_b)" and t = jws_a_b
        and p = "JObject [(''sub'', JString ''123''), (''email'', JString ''a@b.com''),
                          (''name'', JString ''A B'')]"
        and claims = "\<lparr>ID = ''123'', OktaClaims.Email = ''a@b.com'', PreferredUsername = [],
                          OktaClaims.Name = ''A B''\<rparr>"]
      token_a_b(1) token_a_b(2) [of "always (Body body_info_admin)"]
      token_a_b(3) [of "always (Body body_info_admin)"] token_a_b(4)
    by simp
  then obtain u where u: "fst (UserInfo ?env ?missing start (token_with (IString jws_a_b))) = Inr u"
    "Role u = []"
    using fetched by auto
  from u others have run: "fst (UserInfo ?env ?missing start (token_with (IString jws_a_b))) =
       Inr \<lparr>Id = ''123'', Name = ''A B'', Email = ''a@b.com'', Login = ''a@b.com'',
            Role = [], Groups = []\<rparr>"
    by (cases u) simp
  show ?thesis
    using facts admin run fetched token_a_b(1)
      extractRole_silent_miss [of "okta\<lparr>roleAttributePath := []\<rparr>" ?env
        "zeroOktaUserInfoJson\<lparr>rawJSON := body_info_admin\<rparr>"]
      extractRole_silent_miss [of "okta\<lparr>roleAttributePath := ''info.role''\<rparr>" ?env
        "zeroOktaUserInfoJson\<lparr>rawJSON := body_not_json\<rparr>"]
      extractRole_silent_miss [of ?missing ?env
        "zeroOktaUserInfoJson\<lparr>rawJSON := body_info_admin\<rparr>" ?doc]
      extractRole_silent_miss [of "okta\<lparr>roleAttributePath := ''info''\<rparr>" ?env
        "zeroOktaUserInfoJson\<lparr>rawJSON := body_info_admin\<rparr>" ?doc
        "JObject [(''role'', JString ''admin'')]"]
    by (simp add: okta_def)
qed

subsection \<open>An identity token that is not a string\<close>

text \<open>
  Claim C9: when the \<^verbatim>\<open>id_token\<close> field of the token holds a value that is not a
  string, \<^verbatim>\<open>UserInfo\<close> panics on the type assertion and returns no error value;
  the error \<^verbatim>\<open>No id_token found\<close> is returned exactly when the field is absent.
\<close>

theorem UserInfo_id_token_not_a_string:
  "(Extra token ''id_token'' = Some v \<and> (\<forall>t. v \<noteq> IString t)
      \<longrightarrow> UserInfo env s client token = (Inl Panic, client))
   \<and> (fst (UserInfo env s client token) = Inl (Error ''No id_token found'')
        \<longleftrightarrow> Extra token ''id_token'' = None)"
proof (intro conjI impI)
  assume "Extra token ''id_token'' = Some v \<and> (\<forall>t. v \<noteq> IString t)"
  then show "UserInfo env s client token = (Inl Panic, client)"
    by (cases v) (simp_all add: UserInfo_def)
next
  show "fst (UserInfo env s client token) = Inl (Error ''No id_token found'')
        \<longleftrightarrow> Extra token ''id_token'' = None"
    by (auto simp: UserInfo_def Let_def
        split: option.splits iface.splits if_splits prod.splits)
qed

theorem UserInfo_id_token_not_a_string_witness:
  "Extra (token_with (INumber 1516239022)) ''id_token'' = Some (INumber 1516239022)
   \<and> UserInfo (example_env (always (Body body_eng_editor))) okta start
        (token_with (INumber 1516239022)) = (Inl Panic, start)
   \<and> Extra token_without ''id_token'' = None
   \<and> fst (UserInfo (example_env (always (Body body_eng_editor))) okta start token_without) =
        Inl (Error ''No id_token found'')"
proof -
  have a: "Extra (token_with (INumber 1516239022)) ''id_token'' = Some (INumber 1516239022)"
    and b: "Extra token_without ''id_token'' = None"
    by (simp_all add: Extra_def token_with_def token_without_def)
  show ?thesis
    using a b
      UserInfo_id_token_not_a_string [of "token_with (INumber 1516239022)" "INumber 1516239022"
        "example_env (always (Body body_eng_editor))" okta start]
      UserInfo_id_token_not_a_string [of token_without _
        "example_env (always (Body body_eng_editor))" okta start]
    by simp
qed

subsection \<open>What of the fetched documents reaches the identity\<close>

lemma extractRole_reads_rawJSON:
  assumes "decodeJSON env1 = decodeJSON env2" and "searchPath env1 = searchPath env2"
    and "rawJSON data1 = rawJSON data2"
  shows "extractRole env1 s data1 = extractRole env2 s data2"
  using assms by (simp add: extractRole_def searchJSONForAttr_def split: option.split)

text \<open>
  Claim C10: two calls of \<^verbatim>\<open>UserInfo\<close> on the same token and configuration,
  against networks and decoders that may differ, return the same result when the documents
  they fetch agree on \<^verbatim>\<open>rawJSON\<close> (the document the role is read from) and on
  \<^verbatim>\<open>Groups\<close> (the document the groups are read from): no other field of a
  fetched document reaches the identity.
\<close>

theorem UserInfo_reads_rawJSON_and_Groups:
  assumes "rawJSON (document_for_role env1 s client1) =
             rawJSON (document_for_role env2 s client2)"
    and "OktaUserInfoJson.Groups (document_for_groups env1 s client1) =
           OktaUserInfoJson.Groups (document_for_groups env2 s client2)"
    and "env2 = env1\<lparr>network := net, Unmarshal := dec\<rparr>"
  shows "fst (UserInfo env1 s client1 token) = fst (UserInfo env2 s client2 token)"
proof (cases "\<exists>t p c. Extra token ''id_token'' = Some (IString t) \<and> ParseSigned env1 t = Some p
                \<and> UnsafeClaimsWithoutVerification env1 p = Some c \<and> extractEmail c \<noteq> []")
  case True
  then obtain t p c where h: "Extra token ''id_token'' = Some (IString t)"
    "ParseSigned env1 t = Some p" "UnsafeClaimsWithoutVerification env1 p = Some c"
    "extractEmail c \<noteq> []"
    by blast
  from h assms(3) have h2: "Extra token ''id_token'' = Some (IString t)"
    "ParseSigned env2 t = Some p" "UnsafeClaimsWithoutVerification env2 p = Some c"
    "extractEmail c \<noteq> []"
    by simp_all
  have "extractRole env1 s (document_for_role env1 s client1) =
        extractRole env2 s (document_for_role env2 s client2)"
    using assms(1,3) by (intro extractRole_reads_rawJSON) simp_all
  with assms(2) show ?thesis
    by (simp add: UserInfo_success [OF h] UserInfo_success [OF h2] GetGroups_groups
        document_for_role_def document_for_groups_def)
next
  case False
  with assms(3) show ?thesis
    by (auto simp: UserInfo_def Let_def split: option.splits iface.splits)
qed

theorem UserInfo_reads_rawJSON_and_Groups_witness:
  "rawJSON (document_for_role (example_env (always (Body body_name_is_number))) okta start) =
     rawJSON (document_for_role (example_env (always (Body body_login_name_is_number))) okta start)
   \<and> OktaUserInfoJson.Groups
        (document_for_groups (example_env (always (Body body_name_is_number))) okta start) =
     OktaUserInfoJson.Groups
        (document_for_groups (example_env (always (Body body_login_name_is_number))) okta start)
   \<and> OktaUserInfoJson.Login
        (document_for_role (example_env (always (Body body_name_is_number))) okta start) \<noteq>
     OktaUserInfoJson.Login
        (document_for_role (example_env (always (Body body_login_name_is_number))) okta start)
   \<and> fst (UserInfo (example_env (always (Body body_name_is_number))) okta start
            (token_with (IString jws_a_b))) =
     fst (UserInfo (example_env (always (Body body_login_name_is_number))) okta start
            (token_with (IString jws_a_b)))"
proof -
  let ?e1 = "example_env (always (Body body_name_is_number))"
  let ?e2 = "example_env (always (Body body_login_name_is_number))"
  have a: "rawJSON (document_for_role ?e1 okta start) = rawJSON (document_for_role ?e2 okta start)"
    and b: "OktaUserInfoJson.Groups (document_for_groups ?e1 okta start) =
            OktaUserInfoJson.Groups (document_for_groups ?e2 okta start)"
    and c: "OktaUserInfoJson.Login (document_for_role ?e1 okta start) \<noteq>
            OktaUserInfoJson.Login (document_for_role ?e2 okta start)"
    by (simp_all add: method_defs example_defs)
  have d: "?e2 = ?e1\<lparr>network := always (Body body_login_name_is_number),
                      Unmarshal := example_Unmarshal\<rparr>"
    by (simp add: example_env_def)
  show ?thesis
    using a b c UserInfo_reads_rawJSON_and_Groups [OF a b d, of "token_with (IString jws_a_b)"]
    by simp
qed

end
